theory Spec2Isabelle
  imports Main
begin

section \<open>The data of bot.py\<close>

text \<open>
  The bot is a set of handlers of the messaging library; each handler reads the update,
  may change the user's dictionary \<^verbatim>\<open>context.user_data\<close>, calls the transport and the
  external services, and returns the next conversation state. A handler is embedded as
  a function from the dictionary to the new dictionary, the list of calls it made (in
  order) and the value it returned.

  Two conventions hold throughout. The calls of the messaging transport (reply, edit,
  answer) return normally. An exception raised by an external service is an instance of
  Python's \<^verbatim>\<open>Exception\<close>, which is what \<^verbatim>\<open>except Exception\<close> catches; its
  text is \<^verbatim>\<open>str(e)\<close>.
\<close>

datatype exn = Exception string

text \<open>
  The conversation states: \<^verbatim>\<open>GET_DATA = range(1)\<close>,
  \<^verbatim>\<open>ASKING_FOR_SEARCH_QUERY, RECEIVING_SEARCH_QUERY = range(2)\<close> and the library's
  \<^verbatim>\<open>ConversationHandler.END\<close>; four different values. A handler returns
  \<open>Some\<close> of one, or \<open>None\<close> when it falls off its end.
\<close>

datatype state = GET_DATA | ASKING_FOR_SEARCH_QUERY | RECEIVING_SEARCH_QUERY | END

datatype inline_keyboard_button = InlineKeyboardButton string string

type_synonym inline_keyboard_markup = "inline_keyboard_button list list"

text \<open>The value a log line interpolates into its f-string, kept apart from the literal part.\<close>

datatype log_arg = Exn exn | Row "string list"

datatype effect =
    Reply_html string
  | Reply_text string "inline_keyboard_markup option"
  | Answer
  | Edit_message_text string
  | Append_row "string list"
  | Logger_info string "log_arg option"
  | Logger_error string "log_arg option"
  | Build_application string
  | Add_handler string
  | Run_polling nat

text \<open>\<^verbatim>\<open>context.user_data\<close>: a dictionary; the bot uses the key \<^verbatim>\<open>'current_data'\<close> only.\<close>

type_synonym user_data = "string \<rightharpoonup> string list"

text \<open>What \<^verbatim>\<open>google_search\<close> returns: per query, an object with a list \<^verbatim>\<open>results\<close>.\<close>

record search_result =
  source_title :: "string option"
  url :: "string option"
  snippet :: "string option"

record search_results =
  results :: "search_result list"

text \<open>
  The module-level \<^verbatim>\<open>worksheet\<close> is a handle or \<^verbatim>\<open>None\<close>. What the external
  services answer when an update is handled is the \<open>world\<close> of that update:
  \<open>append_row w row\<close> is \<open>None\<close> when \<^verbatim>\<open>worksheet.append_row(row)\<close> returns and
  \<open>Some e\<close> when it raises \<open>e\<close>; \<open>google_search w queries\<close> is the result list or
  the exception; \<open>mention_html w\<close> is \<^verbatim>\<open>update.effective_user.mention_html()\<close>.
\<close>

datatype worksheet = Worksheet

record world =
  append_row :: "string list \<Rightarrow> exn option"
  google_search :: "string list \<Rightarrow> exn + search_results list"
  mention_html :: string

section \<open>The Google Sheets setup (lines 39 to 53)\<close>

text \<open>The argument is the exception of the \<^verbatim>\<open>try\<close> block, if one of its calls raised.\<close>

definition connect :: "exn option \<Rightarrow> worksheet option \<times> effect list" where
  "connect failure =
     (case failure of
        None \<Rightarrow> (Some Worksheet, [Logger_info ''Successfully connected to Google Sheets.'' None])
      | Some e \<Rightarrow> (None, [Logger_error ''Error connecting to Google Sheets: '' (Some (Exn e))]))"

section \<open>The data collection handlers\<close>

definition start_keyboard :: inline_keyboard_markup where
  "start_keyboard =
     [[InlineKeyboardButton ''Submit Data Point'' ''submit_data'',
       InlineKeyboardButton ''Cancel'' ''cancel_submission'']]"

definition start :: "world \<Rightarrow> user_data \<Rightarrow> user_data \<times> effect list \<times> state option" where
  "start w user_data =
     (user_data,
      [Reply_html (''Hi '' @ mention_html w @
         ''! I'm a bot to help you collect data for your AI model.Send me the data you want to add to the dataset. Type /cancel to stop at any time.''),
       Reply_text ''Please select an action:'' (Some start_keyboard)],
      Some GET_DATA)"

definition get_data_keyboard :: inline_keyboard_markup where
  "get_data_keyboard =
     [[InlineKeyboardButton ''Add More Data'' ''add_more_data'',
       InlineKeyboardButton ''Finish Submission'' ''finish_submission'',
       InlineKeyboardButton ''Cancel'' ''cancel_submission'']]"

definition get_data :: "string \<Rightarrow> user_data \<Rightarrow> user_data \<times> effect list \<times> state option" where
  "get_data data_point user_data =
     (let user_data1 =
            (if ''current_data'' \<notin> dom user_data then user_data(''current_data'' \<mapsto> [])
             else user_data);
          user_data2 =
            (case user_data1 ''current_data'' of
               Some current_data \<Rightarrow> user_data1(''current_data'' \<mapsto> current_data @ [data_point])
             | None \<Rightarrow> user_data1)
      in (user_data2,
          [Reply_text ''Received your data point. Add another one or use the buttons.'' None,
           Reply_text ''What would you like to do next?'' (Some get_data_keyboard)],
          Some GET_DATA))"

text \<open>
  \<^verbatim>\<open>'current_data' in user_data and user_data['current_data']\<close>: the key is there and
  its list is not empty.
\<close>

definition has_current_data :: "user_data \<Rightarrow> bool" where
  "has_current_data user_data =
     (case user_data ''current_data'' of None \<Rightarrow> False | Some current_data \<Rightarrow> current_data \<noteq> [])"

text \<open>\<^verbatim>\<open>user_data['current_data']\<close> where the key is there.\<close>

definition current_data_of :: "user_data \<Rightarrow> string list" where
  "current_data_of user_data =
     (case user_data ''current_data'' of None \<Rightarrow> [] | Some current_data \<Rightarrow> current_data)"

definition data_button ::
  "worksheet option \<Rightarrow> world \<Rightarrow> string \<Rightarrow> user_data \<Rightarrow> user_data \<times> effect list \<times> state option" where
  "data_button worksheet w query_data user_data =
     (if query_data = ''submit_data'' \<or> query_data = ''add_more_data'' then
        (user_data, [Answer, Edit_message_text ''Okay, send me the data point.''], Some GET_DATA)
      else if query_data = ''finish_submission'' then
        (if has_current_data user_data then
           (user_data(''current_data'' := None),
            Answer #
            (case worksheet of
               Some _ \<Rightarrow>
                 (case append_row w (current_data_of user_data) of
                    None \<Rightarrow>
                      [Append_row (current_data_of user_data),
                       Edit_message_text ''Data successfully added to the dataset!'',
                       Logger_info ''Data added to sheet: '' (Some (Row (current_data_of user_data)))]
                  | Some e \<Rightarrow>
                      [Append_row (current_data_of user_data),
                       Edit_message_text ''Sorry, there was an error adding data to the sheet.'',
                       Logger_error ''Error appending data to Google Sheet: '' (Some (Exn e))])
             | None \<Rightarrow>
                 [Edit_message_text ''Sorry, could not connect to Google Sheets. Data not saved.'']),
            Some END)
         else
           (user_data, [Answer, Edit_message_text ''No data collected yet.''], Some END))
      else if query_data = ''cancel_submission'' then
        (user_data(''current_data'' := None),
         [Answer, Edit_message_text ''Data submission cancelled.''], Some END)
      else (user_data, [Answer], None))"

definition cancel_data_collection :: "user_data \<Rightarrow> user_data \<times> effect list \<times> state option" where
  "cancel_data_collection user_data =
     (user_data(''current_data'' := None),
      [Reply_text ''Data submission cancelled. Bye!'' None], Some END)"

section \<open>The search handlers\<close>

definition search_command :: "user_data \<Rightarrow> user_data \<times> effect list \<times> state option" where
  "search_command user_data =
     (user_data, [Reply_text ''What would you like to search for?'' None],
      Some RECEIVING_SEARCH_QUERY)"

text \<open>\<^verbatim>\<open>x or 'N/A'\<close>: \<^verbatim>\<open>None\<close> and the empty string are both replaced.\<close>

definition or_NA :: "string option \<Rightarrow> string" where
  "or_NA x = (case x of None \<Rightarrow> ''N/A'' | Some s \<Rightarrow> if s = [] then ''N/A'' else s)"

text \<open>The \<^verbatim>\<open>for\<close> loop of \<^verbatim>\<open>perform_search\<close>: three \<^verbatim>\<open>+=\<close> for each result.\<close>

fun add_results :: "string \<Rightarrow> search_result list \<Rightarrow> string" where
  "add_results reply_text [] = reply_text"
| "add_results reply_text (result # rest) =
     add_results
       (((reply_text @ ''Title: '' @ or_NA (source_title result) @ ''\<newline>'')
          @ ''URL: '' @ or_NA (url result) @ ''\<newline>'')
          @ ''Snippet: '' @ or_NA (snippet result) @ ''\<newline>\<newline>'')
       rest"

text \<open>
  The three lines of one result as the specification words them: title, URL and snippet,
  "N/A" for a missing field, and a blank line after them. The loop is compared with it
  in \<open>add_results_concat\<close>.
\<close>

definition result_lines :: "search_result \<Rightarrow> string" where
  "result_lines result =
     ''Title: '' @ or_NA (source_title result) @ ''\<newline>'' @
     ''URL: '' @ or_NA (url result) @ ''\<newline>'' @
     ''Snippet: '' @ or_NA (snippet result) @ ''\<newline>\<newline>''"

definition perform_search ::
  "world \<Rightarrow> string \<Rightarrow> user_data \<Rightarrow> user_data \<times> effect list \<times> state option" where
  "perform_search w search_query user_data =
     (user_data,
      Reply_text (''Searching for '' @ [CHR 0x27] @ search_query @ [CHR 0x27] @ ''...'') None #
      (case google_search w [search_query] of
         Inr found \<Rightarrow>
           [Reply_text
              (case found of
                 [] \<Rightarrow> ''No search results found.''
               | first # _ \<Rightarrow>
                   if results first \<noteq> []
                   then add_results ''Search Results:\<newline>\<newline>'' (results first)
                   else ''No search results found.'')
              None]
       | Inl e \<Rightarrow>
           [Logger_error ''Error during search: '' (Some (Exn e)),
            Reply_text ''Sorry, an error occurred while performing the search.'' None]),
      Some END)"

definition cancel_search :: "user_data \<Rightarrow> user_data \<times> effect list \<times> state option" where
  "cancel_search user_data = (user_data, [Reply_text ''Search cancelled.'' None], Some END)"

section \<open>main\<close>

text \<open>
  \<open>environ\<close> is \<^verbatim>\<open>os.environ\<close>. The result lists what \<^verbatim>\<open>main\<close> does: the error
  it logs, or the application it builds with the token, the two conversation handlers it
  adds and the polling it starts.
\<close>

definition main :: "(string \<rightharpoonup> string) \<Rightarrow> effect list" where
  "main environ =
     (let TOKEN = (case environ ''TELEGRAM_BOT_TOKEN'' of None \<Rightarrow> ''YOUR_BOT_TOKEN'' | Some t \<Rightarrow> t)
      in if TOKEN = ''YOUR_BOT_TOKEN'' then
           [Logger_error
              ''Please replace 'YOUR_BOT_TOKEN' with your actual Telegram bot token or set the TELEGRAM_BOT_TOKEN environment variable.''
              None]
         else
           [Build_application TOKEN,
            Add_handler ''data_collection_conv_handler'',
            Add_handler ''search_conv_handler'',
            Run_polling 3])"

section \<open>The conversation handlers that main registers\<close>

text \<open>
  \<^verbatim>\<open>main\<close> builds two \<^verbatim>\<open>ConversationHandler\<close>s and adds them, in this order, to
  the same group. The library keeps one state per conversation (\<open>None\<close>: no
  conversation is running) and dispatches an update as follows.
  \<^item> With no conversation running, a conversation handler takes the update only
    through one of its entry points.
  \<^item> In a state, it tries the handlers listed for that state, then the fallbacks; entry
    points are not tried again.
  \<^item> The value the callback returns is the new state: \<^verbatim>\<open>END\<close> ends the
    conversation, \<^verbatim>\<open>None\<close> keeps the state.
  \<^item> In one group the first handler that takes the update handles it, and no other.

  An update is a command (\<^verbatim>\<open>/name\<close>), a text message that is not a command
  (\<^verbatim>\<open>filters.TEXT & ~filters.COMMAND\<close>), a button press with its callback data, or
  anything else. A session is what one conversation sees of one user: the state of each
  of the two handlers and the user's dictionary.
\<close>

datatype update = Command string | Text_message string | Callback_query string | Other_update

record session =
  data_conv :: "state option"
  search_conv :: "state option"
  user_data_of :: user_data

definition next_state :: "state option \<Rightarrow> state option \<Rightarrow> state option" where
  "next_state old returned =
     (case returned of None \<Rightarrow> old | Some st \<Rightarrow> if st = END then None else Some st)"

definition data_collection_conv_handler ::
  "worksheet option \<Rightarrow> world \<Rightarrow> update \<Rightarrow> session \<Rightarrow> (session \<times> effect list) option" where
  "data_collection_conv_handler worksheet w u s =
     (let handler =
        (case data_conv s of
           None \<Rightarrow>
             (case u of
                Command c \<Rightarrow> if c = ''start'' then Some (start w) else None
              | _ \<Rightarrow> None)
         | Some st \<Rightarrow>
             (case (if st = GET_DATA then
                      (case u of
                         Text_message t \<Rightarrow> Some (get_data t)
                       | Callback_query d \<Rightarrow> Some (data_button worksheet w d)
                       | _ \<Rightarrow> None)
                    else None) of
                Some h \<Rightarrow> Some h
              | None \<Rightarrow>
                  (case u of
                     Command c \<Rightarrow> if c = ''cancel'' then Some cancel_data_collection else None
                   | _ \<Rightarrow> None)))
      in case handler of
           None \<Rightarrow> None
         | Some h \<Rightarrow>
             (case h (user_data_of s) of
                (user_data, out, returned) \<Rightarrow>
                  Some (s\<lparr>data_conv := next_state (data_conv s) returned,
                           user_data_of := user_data\<rparr>, out)))"

definition search_conv_handler ::
  "world \<Rightarrow> update \<Rightarrow> session \<Rightarrow> (session \<times> effect list) option" where
  "search_conv_handler w u s =
     (let handler =
        (case search_conv s of
           None \<Rightarrow>
             (case u of
                Command c \<Rightarrow> if c = ''search'' then Some search_command else None
              | _ \<Rightarrow> None)
         | Some st \<Rightarrow>
             (case (if st = RECEIVING_SEARCH_QUERY then
                      (case u of
                         Text_message t \<Rightarrow> Some (perform_search w t)
                       | _ \<Rightarrow> None)
                    else None) of
                Some h \<Rightarrow> Some h
              | None \<Rightarrow>
                  (case u of
                     Command c \<Rightarrow> if c = ''cancel'' then Some cancel_search else None
                   | _ \<Rightarrow> None)))
      in case handler of
           None \<Rightarrow> None
         | Some h \<Rightarrow>
             (case h (user_data_of s) of
                (user_data, out, returned) \<Rightarrow>
                  Some (s\<lparr>search_conv := next_state (search_conv s) returned,
                           user_data_of := user_data\<rparr>, out)))"

definition process_update ::
  "worksheet option \<Rightarrow> world \<Rightarrow> update \<Rightarrow> session \<Rightarrow> session \<times> effect list" where
  "process_update worksheet w u s =
     (case data_collection_conv_handler worksheet w u s of
        Some handled \<Rightarrow> handled
      | None \<Rightarrow>
          (case search_conv_handler w u s of
             Some handled \<Rightarrow> handled
           | None \<Rightarrow> (s, [])))"

text \<open>A run: the updates in the order they arrive, each with the world it is handled in.\<close>

fun run :: "worksheet option \<Rightarrow> session \<Rightarrow> (world \<times> update) list \<Rightarrow> session \<times> effect list" where
  "run worksheet s [] = (s, [])"
| "run worksheet s ((w, u) # rest) =
     (case process_update worksheet w u s of
        (s1, out1) \<Rightarrow>
          (case run worksheet s1 rest of
             (s2, out2) \<Rightarrow> (s2, out1 @ out2)))"

text \<open>
  One data collection dialogue, from a session in which it is running: the updates and
  what each of them caused, up to and including the update that ends the dialogue.
\<close>

fun dialogue ::
  "worksheet option \<Rightarrow> session \<Rightarrow> (world \<times> update) list \<Rightarrow> (update \<times> effect list) list" where
  "dialogue worksheet s [] = []"
| "dialogue worksheet s ((w, u) # rest) =
     (case process_update worksheet w u s of
        (s1, out1) \<Rightarrow>
          (u, out1) # (if data_conv s1 = None then [] else dialogue worksheet s1 rest))"

section \<open>Observations\<close>

text \<open>The rows \<^verbatim>\<open>worksheet.append_row\<close> was called with, in order.\<close>

fun append_calls :: "effect list \<Rightarrow> string list list" where
  "append_calls [] = []"
| "append_calls (Append_row row # out) = row # append_calls out"
| "append_calls (_ # out) = append_calls out"

text \<open>The texts of the text messages among the updates, in order.\<close>

fun text_messages :: "update list \<Rightarrow> string list" where
  "text_messages [] = []"
| "text_messages (Text_message t # us) = t # text_messages us"
| "text_messages (_ # us) = text_messages us"

text \<open>The button presses and the command that end a data collection dialogue.\<close>

definition finish :: update where
  "finish = Callback_query ''finish_submission''"

definition cancel_button :: update where
  "cancel_button = Callback_query ''cancel_submission''"

section \<open>Concrete worlds and sessions\<close>

definition world_ok :: world where
  "world_ok =
     \<lparr>append_row = (\<lambda>row. None), google_search = (\<lambda>queries. Inr []), mention_html = ''Ann''\<rparr>"

definition world_failing :: world where
  "world_failing =
     \<lparr>append_row = (\<lambda>row. Some (Exception ''quota'')),
      google_search = (\<lambda>queries. Inl (Exception ''timeout'')),
      mention_html = ''Ann''\<rparr>"

definition result_A :: search_result where
  "result_A = \<lparr>source_title = Some ''A'', url = Some ''u'', snippet = None\<rparr>"

definition world_found_A :: world where
  "world_found_A =
     \<lparr>append_row = (\<lambda>row. None),
      google_search = (\<lambda>queries. Inr [\<lparr>results = [result_A]\<rparr>]),
      mention_html = ''Ann''\<rparr>"

definition no_user_data :: user_data where
  "no_user_data = Map.empty"

definition stored_x :: user_data where
  "stored_x = [''current_data'' \<mapsto> [''x'']]"

definition new_session :: session where
  "new_session = \<lparr>data_conv = None, search_conv = None, user_data_of = no_user_data\<rparr>"

definition collecting :: session where
  "collecting = \<lparr>data_conv = Some GET_DATA, search_conv = None, user_data_of = stored_x\<rparr>"

definition searching_with_stored_x :: session where
  "searching_with_stored_x =
     \<lparr>data_conv = None, search_conv = Some RECEIVING_SEARCH_QUERY, user_data_of = stored_x\<rparr>"

definition idle_with_stored_x :: session where
  "idle_with_stored_x = \<lparr>data_conv = None, search_conv = None, user_data_of = stored_x\<rparr>"

definition entered :: session where
  "entered = \<lparr>data_conv = Some GET_DATA, search_conv = None, user_data_of = no_user_data\<rparr>"

definition a_b_finish_c :: "(world \<times> update) list" where
  "a_b_finish_c =
     [(world_ok, Text_message ''a''), (world_ok, Callback_query ''add_more_data''),
      (world_failing, Text_message ''b''), (world_ok, finish), (world_ok, Text_message ''c'')]"

section \<open>Facts about the handlers and the dispatch\<close>

lemma add_results_concat:
  "add_results reply_text rs = reply_text @ concat (map result_lines rs)"
  by (induction rs arbitrary: reply_text) (simp_all add: result_lines_def)

lemma append_calls_append [simp]:
  "append_calls (xs @ ys) = append_calls xs @ append_calls ys"
  by (induction xs rule: append_calls.induct) simp_all

lemma append_calls_data_button:
  "append_calls (fst (snd (data_button worksheet w d user_data))) =
     (if d = ''finish_submission'' \<and> has_current_data user_data \<and> worksheet \<noteq> None
      then [current_data_of user_data] else [])"
  by (simp add: data_button_def split: option.split)

lemma append_calls_perform_search [simp]:
  "append_calls (fst (snd (perform_search w q user_data))) = []"
  by (simp add: perform_search_def split: sum.split)

lemma append_calls_process_update:
  "append_calls (snd (process_update worksheet w u s)) =
     (if u = finish \<and> data_conv s = Some GET_DATA \<and> has_current_data (user_data_of s) \<and>
         worksheet \<noteq> None
      then [current_data_of (user_data_of s)] else [])"
proof (cases u)
  case (Command c)
  then show ?thesis
    by (simp add: process_update_def data_collection_conv_handler_def search_conv_handler_def
        finish_def start_def cancel_data_collection_def search_command_def cancel_search_def
        split: option.split)
next
  case (Text_message t)
  then show ?thesis
    using append_calls_perform_search [of w t "user_data_of s"]
    by (cases "perform_search w t (user_data_of s)")
      (simp add: process_update_def data_collection_conv_handler_def search_conv_handler_def
        finish_def get_data_def Let_def split: option.split)
next
  case (Callback_query d)
  then show ?thesis
    using append_calls_data_button [of worksheet w d "user_data_of s"]
    by (cases "data_button worksheet w d (user_data_of s)")
      (auto simp: process_update_def data_collection_conv_handler_def search_conv_handler_def
        finish_def split: option.split)
next
  case Other_update
  then show ?thesis
    by (simp add: process_update_def data_collection_conv_handler_def search_conv_handler_def
        finish_def split: option.split)
qed

lemma has_current_data_iff: "has_current_data user_data \<longleftrightarrow> current_data_of user_data \<noteq> []"
  by (simp add: has_current_data_def current_data_of_def split: option.split)

lemma run_append:
  "run worksheet s (xs @ ys) =
     (case run worksheet s xs of
        (s1, out1) \<Rightarrow> (case run worksheet s1 ys of (s2, out2) \<Rightarrow> (s2, out1 @ out2)))"
  by (induction xs arbitrary: s) (auto split: prod.split)

lemma process_start_idle:
  "data_conv s = None \<Longrightarrow>
   process_update worksheet w (Command ''start'') s =
     (s\<lparr>data_conv := Some GET_DATA\<rparr>, fst (snd (start w (user_data_of s))))"
  by (simp add: process_update_def data_collection_conv_handler_def start_def next_state_def)

lemma process_text_GET_DATA:
  "data_conv s = Some GET_DATA \<Longrightarrow>
   process_update worksheet w (Text_message t) s =
     (s\<lparr>user_data_of :=
          (user_data_of s)(''current_data'' \<mapsto> current_data_of (user_data_of s) @ [t])\<rparr>,
      fst (snd (get_data t (user_data_of s))))"
  by (cases s)
    (auto simp: process_update_def data_collection_conv_handler_def get_data_def next_state_def
      current_data_of_def Let_def split: option.split)

lemma process_finish_GET_DATA:
  "data_conv s = Some GET_DATA \<Longrightarrow>
   process_update worksheet w finish s =
     (s\<lparr>data_conv := None, user_data_of := fst (data_button worksheet w ''finish_submission'' (user_data_of s))\<rparr>,
      fst (snd (data_button worksheet w ''finish_submission'' (user_data_of s))))"
  by (simp add: process_update_def data_collection_conv_handler_def finish_def data_button_def
      next_state_def)

lemma run_text_messages:
  "data_conv s = Some GET_DATA \<Longrightarrow> map snd evs = map Text_message msgs \<Longrightarrow>
   data_conv (fst (run worksheet s evs)) = Some GET_DATA \<and>
   current_data_of (user_data_of (fst (run worksheet s evs))) =
     current_data_of (user_data_of s) @ msgs \<and>
   append_calls (snd (run worksheet s evs)) = []"
proof (induction evs arbitrary: s msgs)
  case Nil
  then show ?case by simp
next
  case (Cons ev evs)
  obtain w u where ev: "ev = (w, u)" by (cases ev)
  from Cons.prems(2) ev obtain t rest where msgs: "msgs = t # rest" and u: "u = Text_message t"
    and rest: "map snd evs = map Text_message rest"
    by (cases msgs) auto
  let ?s1 = "s\<lparr>user_data_of :=
          (user_data_of s)(''current_data'' \<mapsto> current_data_of (user_data_of s) @ [t])\<rparr>"
  have step: "process_update worksheet w u s = (?s1, fst (snd (get_data t (user_data_of s))))"
    using Cons.prems(1) u by (simp add: process_text_GET_DATA)
  have s1: "data_conv ?s1 = Some GET_DATA" using Cons.prems(1) by simp
  have cd: "current_data_of (user_data_of ?s1) = current_data_of (user_data_of s) @ [t]"
    by (simp add: current_data_of_def)
  have out: "append_calls (fst (snd (get_data t (user_data_of s)))) = []"
    by (simp add: get_data_def Let_def)
  obtain s2 out2 where r: "run worksheet ?s1 evs = (s2, out2)"
    by (cases "run worksheet ?s1 evs")
  note ih = Cons.IH [OF s1 rest, unfolded r fst_conv snd_conv cd]
  have all: "run worksheet s (ev # evs) = (s2, fst (snd (get_data t (user_data_of s))) @ out2)"
    unfolding ev by (simp only: run.simps step r prod.case)
  show ?case
    unfolding all msgs fst_conv snd_conv using ih out by simp
qed

lemma step_GET_DATA:
  assumes "data_conv s = Some GET_DATA"
  shows "(data_conv (fst (process_update worksheet w u s)) = None \<and> text_messages [u] = []) \<or>
         (data_conv (fst (process_update worksheet w u s)) = Some GET_DATA \<and> u \<noteq> finish \<and>
          current_data_of (user_data_of (fst (process_update worksheet w u s))) =
            current_data_of (user_data_of s) @ text_messages [u])"
proof (cases u)
  case (Command c)
  then show ?thesis
    using assms
    by (auto simp: process_update_def data_collection_conv_handler_def search_conv_handler_def
        finish_def cancel_data_collection_def search_command_def cancel_search_def next_state_def
        split: option.split)
next
  case (Text_message t)
  then show ?thesis
    using assms by (simp add: process_text_GET_DATA finish_def current_data_of_def)
next
  case (Callback_query d)
  then show ?thesis
    using assms
    by (auto simp: process_update_def data_collection_conv_handler_def finish_def data_button_def
        next_state_def)
next
  case Other_update
  then show ?thesis
    using assms
    by (simp add: process_update_def data_collection_conv_handler_def search_conv_handler_def
        finish_def split: option.split)
qed

lemma dialogue_steps:
  "(u, out) \<in> set (dialogue worksheet s evs) \<Longrightarrow>
   \<exists>w s'. out = snd (process_update worksheet w u s')"
proof (induction evs arbitrary: s)
  case Nil
  then show ?case by simp
next
  case (Cons ev evs)
  obtain w u' where ev: "ev = (w, u')" by (cases ev)
  obtain s1 out1 where step: "process_update worksheet w u' s = (s1, out1)"
    by (cases "process_update worksheet w u' s")
  from Cons.prems have "(u, out) = (u', out1) \<or> (u, out) \<in> set (dialogue worksheet s1 evs)"
    by (auto simp: ev step split: if_splits)
  then show ?case
  proof
    assume "(u, out) = (u', out1)"
    then have "out = snd (process_update worksheet w u s)" using step by simp
    then show ?thesis by blast
  next
    assume "(u, out) \<in> set (dialogue worksheet s1 evs)"
    then show ?thesis by (rule Cons.IH)
  qed
qed

lemma dialogue_append_calls:
  "data_conv s = Some GET_DATA \<Longrightarrow>
   append_calls (concat (map snd (dialogue worksheet s evs))) = [] \<or>
   (append_calls (concat (map snd (dialogue worksheet s evs))) =
      [current_data_of (user_data_of s) @ text_messages (map fst (dialogue worksheet s evs))] \<and>
    current_data_of (user_data_of s) @ text_messages (map fst (dialogue worksheet s evs)) \<noteq> [])"
proof (induction evs arbitrary: s)
  case Nil
  then show ?case by simp
next
  case (Cons ev evs)
  obtain w u where ev: "ev = (w, u)" by (cases ev)
  obtain s1 out1 where step: "process_update worksheet w u s = (s1, out1)"
    by (cases "process_update worksheet w u s")
  have calls: "append_calls out1 =
      (if u = finish \<and> has_current_data (user_data_of s) \<and> worksheet \<noteq> None
       then [current_data_of (user_data_of s)] else [])"
    using append_calls_process_update [of worksheet w u s] Cons.prems by (simp add: step)
  from step_GET_DATA [OF Cons.prems, of worksheet w u]
  consider (ended) "data_conv s1 = None" "text_messages [u] = []"
    | (goes_on) "data_conv s1 = Some GET_DATA" "u \<noteq> finish"
        "current_data_of (user_data_of s1) = current_data_of (user_data_of s) @ text_messages [u]"
    by (auto simp: step)
  then show ?case
  proof cases
    case ended
    have tr: "dialogue worksheet s (ev # evs) = [(u, out1)]"
      by (simp add: ev step ended(1))
    from ended(2) have tm: "text_messages (map fst [(u, out1)]) = []" by simp
    show ?thesis
      unfolding tr tm using calls by (simp add: has_current_data_iff)
  next
    case goes_on
    have tr: "dialogue worksheet s (ev # evs) = (u, out1) # dialogue worksheet s1 evs"
      by (simp add: ev step goes_on(1))
    have no: "append_calls out1 = []" using calls goes_on(2) by simp
    have tm: "text_messages (u # us) = text_messages [u] @ text_messages us" for us
      by (cases u) simp_all
    from Cons.IH [OF goes_on(1)] show ?thesis
      unfolding tr goes_on(3) by (simp add: no tm [of "map fst (dialogue worksheet s1 evs)"])
  qed
qed

lemma run_without_worksheet: "append_calls (snd (run None s evs)) = []"
proof (induction evs arbitrary: s)
  case Nil
  then show ?case by simp
next
  case (Cons ev evs)
  obtain w u where ev: "ev = (w, u)" by (cases ev)
  obtain s1 out1 where step: "process_update None w u s = (s1, out1)"
    by (cases "process_update None w u s")
  have "append_calls out1 = []"
    using append_calls_process_update [of None w u s] by (simp add: step)
  with Cons.IH [of s1] show ?case
    by (simp add: ev step case_prod_beta)
qed

lemma search_conv_handler_keeps:
  "search_conv_handler w u s = Some (s1, out) \<Longrightarrow>
   user_data_of s1 = user_data_of s \<and> data_conv s1 = data_conv s"
  by (cases u)
    (auto simp: search_conv_handler_def search_command_def cancel_search_def perform_search_def
      split: option.splits if_splits)

lemma start_keeps:
  "data_conv s = None \<Longrightarrow> data_collection_conv_handler worksheet w u s = Some (s1, out) \<Longrightarrow>
   user_data_of s1 = user_data_of s"
  by (cases u) (auto simp: data_collection_conv_handler_def start_def split: if_splits)

lemma data_button_END:
  "data_button worksheet w d user_data = (user_data1, out, Some END) \<Longrightarrow>
   current_data_of user_data1 = []"
  by (auto simp: data_button_def current_data_of_def has_current_data_def
      split: if_splits option.splits)

lemma data_button_returns:
  "snd (snd (data_button worksheet w d user_data)) \<in> {None, Some GET_DATA, Some END}"
  by (simp add: data_button_def)

lemma ended_holds_nothing:
  assumes "data_conv s = Some st"
    and "data_collection_conv_handler worksheet w u s = Some (s1, out)"
    and "data_conv s1 = None"
  shows "current_data_of (user_data_of s1) = []"
proof (cases u)
  case (Command c)
  then show ?thesis
    using assms
    by (auto simp: data_collection_conv_handler_def cancel_data_collection_def
        current_data_of_def split: if_splits)
next
  case (Text_message t)
  then show ?thesis
    using assms
    by (auto simp: data_collection_conv_handler_def get_data_def next_state_def Let_def
        split: if_splits)
next
  case (Callback_query d)
  obtain ud out' ret where b: "data_button worksheet w d (user_data_of s) = (ud, out', ret)"
    by (cases "data_button worksheet w d (user_data_of s)")
  from data_button_returns [of worksheet w d "user_data_of s"] b
  have ret: "ret = None \<or> ret = Some GET_DATA \<or> ret = Some END" by simp
  from assms Callback_query b have st: "st = GET_DATA"
    by (auto simp: data_collection_conv_handler_def split: if_splits)
  from assms Callback_query b st have s1: "s1 = s\<lparr>data_conv := next_state (Some GET_DATA) ret, user_data_of := ud\<rparr>"
    by (simp add: data_collection_conv_handler_def)
  from assms(3) ret have "ret = Some END"
    unfolding s1 by (auto simp: next_state_def)
  with b data_button_END have "current_data_of ud = []" by blast
  then show ?thesis unfolding s1 by simp
next
  case Other_update
  then show ?thesis
    using assms by (auto simp: data_collection_conv_handler_def split: if_splits)
qed

lemma idle_step:
  assumes "data_conv s = None \<longrightarrow> current_data_of (user_data_of s) = []"
    and "data_conv (fst (process_update worksheet w u s)) = None"
  shows "current_data_of (user_data_of (fst (process_update worksheet w u s))) = []"
proof (cases "data_collection_conv_handler worksheet w u s")
  case None
  show ?thesis
  proof (cases "search_conv_handler w u s")
    case None
    with \<open>data_collection_conv_handler worksheet w u s = None\<close> assms show ?thesis
      by (simp add: process_update_def)
  next
    case (Some r)
    obtain s1 out where r: "r = (s1, out)" by (cases r)
    from Some r \<open>data_collection_conv_handler worksheet w u s = None\<close>
    have p: "process_update worksheet w u s = (s1, out)" by (simp add: process_update_def)
    from search_conv_handler_keeps [of w u s s1 out] Some r
    have "user_data_of s1 = user_data_of s" "data_conv s1 = data_conv s" by simp_all
    with assms show ?thesis unfolding p by simp
  qed
next
  case (Some r)
  obtain s1 out where r: "r = (s1, out)" by (cases r)
  from Some r have p: "process_update worksheet w u s = (s1, out)"
    by (simp add: process_update_def)
  show ?thesis
  proof (cases "data_conv s")
    case None
    from start_keeps [OF None, of worksheet w u s1 out] Some r
    have "user_data_of s1 = user_data_of s" by simp
    with assms(1) None show ?thesis unfolding p by simp
  next
    case (Some st)
    from assms(2) have "data_conv s1 = None" unfolding p by simp
    from ended_holds_nothing [OF Some _ this, of worksheet w u out]
      \<open>data_collection_conv_handler worksheet w u s = Some r\<close> r
    show ?thesis unfolding p by simp
  qed
qed

lemma idle_run:
  "(data_conv s = None \<longrightarrow> current_data_of (user_data_of s) = []) \<Longrightarrow>
   data_conv (fst (run worksheet s evs)) = None \<Longrightarrow>
   current_data_of (user_data_of (fst (run worksheet s evs))) = []"
proof (induction evs arbitrary: s)
  case Nil
  then show ?case by simp
next
  case (Cons ev evs)
  obtain w u where ev: "ev = (w, u)" by (cases ev)
  let ?s1 = "fst (process_update worksheet w u s)"
  have run: "fst (run worksheet s (ev # evs)) = fst (run worksheet ?s1 evs)"
    by (simp add: ev case_prod_beta)
  have inv: "data_conv ?s1 = None \<longrightarrow> current_data_of (user_data_of ?s1) = []"
    using idle_step [OF Cons.prems(1)] by blast
  from Cons.IH [OF inv] Cons.prems(2) show ?case
    unfolding run by blast
qed

lemma idle_after_new_session:
  "data_conv (fst (run worksheet new_session evs)) = None \<Longrightarrow>
   current_data_of (user_data_of (fst (run worksheet new_session evs))) = []"
  by (rule idle_run) (simp_all add: new_session_def no_user_data_def current_data_of_def)

section \<open>The claims\<close>

text \<open>
  A session belongs to one conversation, the dictionary in it to the user: the library
  keeps \<^verbatim>\<open>user_data\<close> per user and the state of a conversation per chat and user.
  Within one conversation an idle session reached from \<open>new_session\<close> holds no entries
  (\<open>idle_after_new_session\<close>); a conversation of the same user in another chat can have
  stored some. The theorems below therefore speak about every dictionary, and state as a
  hypothesis what they need of the entries stored when a dialogue is entered.
\<close>

subsection \<open>C1: what finish appends after N messages\<close>

text \<open>
  Claim C1 as stated fails. The entries that finish appends are those in the dictionary,
  and \<^verbatim>\<open>start\<close> does not clear it. In an idle session with the entry "x" stored,
  \<^verbatim>\<open>/start\<close> followed at once by the finish button (\<open>N = 0\<close>) calls
  \<^verbatim>\<open>append_row\<close> with the row of "x" and does not show "No data collected yet.";
  with the one message "a" between them (\<open>N = 1\<close>) the row is "x", "a" and not the
  message alone.
\<close>

theorem finish_appends_stored_entries_counterexample:
  "data_conv idle_with_stored_x = None \<and>
   append_calls (snd (run (Some Worksheet) idle_with_stored_x
      [(world_ok, Command ''start''), (world_ok, finish)])) = [[''x'']] \<and>
   Edit_message_text ''No data collected yet.'' \<notin> set (snd (run (Some Worksheet) idle_with_stored_x
      [(world_ok, Command ''start''), (world_ok, finish)])) \<and>
   append_row world_ok [''a''] = None \<and>
   append_calls (snd (run (Some Worksheet) idle_with_stored_x
      [(world_ok, Command ''start''), (world_ok, Text_message ''a''), (world_ok, finish)])) =
     [[''x'', ''a'']]"
  by (simp add: idle_with_stored_x_def stored_x_def world_ok_def process_update_def
      data_collection_conv_handler_def start_def get_data_def data_button_def next_state_def
      finish_def has_current_data_def current_data_of_def Let_def)

text \<open>
  Claim C1, amended. A data collection dialogue is entered by \<^verbatim>\<open>/start\<close> in a session
  that holds no entries; \<open>N\<close> text messages \<open>msgs\<close> follow, each in the world of its
  moment, and then the finish button is pressed. If \<open>N > 0\<close>, the worksheet is
  connected and the append returns, \<^verbatim>\<open>append_row\<close> is called exactly once in the whole
  run, with \<open>msgs\<close> in the order sent, and the success message is shown. If \<open>N = 0\<close>,
  \<^verbatim>\<open>append_row\<close> is not called and "No data collected yet." is shown.
\<close>

theorem finish_appends_the_messages:
  assumes "data_conv s = None"
    and "current_data_of (user_data_of s) = []"
    and "map snd evs = map Text_message msgs"
  shows "(msgs \<noteq> [] \<and> worksheet \<noteq> None \<and> append_row w msgs = None \<longrightarrow>
            append_calls (snd (run worksheet s ((w0, Command ''start'') # evs @ [(w, finish)])))
              = [msgs] \<and>
            Edit_message_text ''Data successfully added to the dataset!''
              \<in> set (snd (run worksheet s ((w0, Command ''start'') # evs @ [(w, finish)])))) \<and>
         (msgs = [] \<longrightarrow>
            append_calls (snd (run worksheet s ((w0, Command ''start'') # evs @ [(w, finish)])))
              = [] \<and>
            Edit_message_text ''No data collected yet.''
              \<in> set (snd (run worksheet s ((w0, Command ''start'') # evs @ [(w, finish)]))))"
proof -
  let ?s0 = "s\<lparr>data_conv := Some GET_DATA\<rparr>"
  obtain s1 out1 where r1: "run worksheet ?s0 evs = (s1, out1)"
    by (cases "run worksheet ?s0 evs")
  have s0: "data_conv ?s0 = Some GET_DATA" by simp
  from run_text_messages [OF s0 assms(3), of worksheet] r1 assms(2)
  have s1: "data_conv s1 = Some GET_DATA" and cd: "current_data_of (user_data_of s1) = msgs"
    and a1: "append_calls out1 = []"
    by simp_all
  let ?fin = "data_button worksheet w ''finish_submission'' (user_data_of s1)"
  have whole: "snd (run worksheet s ((w0, Command ''start'') # evs @ [(w, finish)])) =
      fst (snd (start w0 (user_data_of s))) @ out1 @ fst (snd ?fin)"
  proof -
    have tail: "snd (run worksheet ?s0 (evs @ [(w, finish)])) = out1 @ fst (snd ?fin)"
      using s1 by (simp add: run_append r1 process_finish_GET_DATA)
    show ?thesis
      using tail by (simp add: process_start_idle [OF assms(1)] case_prod_beta)
  qed
  have a0: "append_calls (fst (snd (start w0 (user_data_of s)))) = []"
    by (simp add: start_def)
  have calls: "append_calls (snd (run worksheet s ((w0, Command ''start'') # evs @ [(w, finish)])))
      = (if msgs \<noteq> [] \<and> worksheet \<noteq> None then [msgs] else [])"
    unfolding whole by (simp add: a0 a1 append_calls_data_button has_current_data_iff cd)
  have ok: "msgs \<noteq> [] \<Longrightarrow> worksheet \<noteq> None \<Longrightarrow> append_row w msgs = None \<Longrightarrow>
      Edit_message_text ''Data successfully added to the dataset!'' \<in> set (fst (snd ?fin))"
    by (auto simp: data_button_def has_current_data_iff cd)
  have none: "msgs = [] \<Longrightarrow> Edit_message_text ''No data collected yet.'' \<in> set (fst (snd ?fin))"
    by (simp add: data_button_def has_current_data_iff cd)
  have mem: "set (snd (run worksheet s ((w0, Command ''start'') # evs @ [(w, finish)]))) =
      set (fst (snd (start w0 (user_data_of s)))) \<union> set out1 \<union> set (fst (snd ?fin))"
    unfolding whole by auto
  show ?thesis
    unfolding calls mem using ok none by auto
qed

text \<open>Two messages and none, in a new session with the worksheet connected.\<close>

theorem finish_appends_the_messages_witness:
  "data_conv new_session = None \<and>
   current_data_of (user_data_of new_session) = [] \<and>
   append_row world_ok [''a'', ''b''] = None \<and>
   append_calls (snd (run (Some Worksheet) new_session
      [(world_ok, Command ''start''), (world_ok, Text_message ''a''),
       (world_ok, Text_message ''b''), (world_ok, finish)])) = [[''a'', ''b'']] \<and>
   append_calls (snd (run (Some Worksheet) new_session
      [(world_ok, Command ''start''), (world_ok, finish)])) = [] \<and>
   Edit_message_text ''No data collected yet.'' \<in> set (snd (run (Some Worksheet) new_session
      [(world_ok, Command ''start''), (world_ok, finish)]))"
  using finish_appends_the_messages
      [of new_session "[(world_ok, Text_message ''a''), (world_ok, Text_message ''b'')]"
          "[''a'', ''b'']" "Some Worksheet" world_ok world_ok]
    finish_appends_the_messages [of new_session "[]" "[]" "Some Worksheet" world_ok world_ok]
  by (simp add: new_session_def no_user_data_def current_data_of_def world_ok_def)

subsection \<open>C2: one row per dialogue, never a part of it\<close>

text \<open>
  Claim C2. Take any updates arriving while a data collection dialogue is running, from
  any session in which it runs, up to the update that ends it. Over the whole dialogue
  \<^verbatim>\<open>append_row\<close> is called at most once; an update that causes a call is the finish
  button; and the row of a call is not empty and consists of the entries stored when the
  dialogue was observed first, followed by the texts of all text messages of the
  dialogue: the whole collection, never a proper prefix of it.
\<close>

theorem one_row_per_dialogue:
  assumes "data_conv s = Some GET_DATA"
  shows "length (append_calls (concat (map snd (dialogue worksheet s evs)))) \<le> 1 \<and>
         (\<forall>(u, out) \<in> set (dialogue worksheet s evs). append_calls out \<noteq> [] \<longrightarrow> u = finish) \<and>
         (\<forall>row \<in> set (append_calls (concat (map snd (dialogue worksheet s evs)))).
            row \<noteq> [] \<and>
            row = current_data_of (user_data_of s) @
                  text_messages (map fst (dialogue worksheet s evs)))"
proof -
  have only_finish: "u = finish"
    if "(u, out) \<in> set (dialogue worksheet s evs)" and "append_calls out \<noteq> []" for u out
  proof -
    from dialogue_steps [OF that(1)] obtain w s' where
      "out = snd (process_update worksheet w u s')" by blast
    with that(2) show ?thesis
      by (simp add: append_calls_process_update split: if_splits)
  qed
  from dialogue_append_calls [OF assms, of worksheet evs] only_finish show ?thesis
    by auto
qed

text \<open>
  A dialogue of two messages with a button press between them, then finish; the message
  after it is no longer part of the dialogue.
\<close>

theorem one_row_per_dialogue_witness:
  "data_conv entered = Some GET_DATA \<and>
   map fst (dialogue (Some Worksheet) entered a_b_finish_c) =
     [Text_message ''a'', Callback_query ''add_more_data'', Text_message ''b'', finish] \<and>
   append_calls (concat (map snd (dialogue (Some Worksheet) entered a_b_finish_c))) =
     [[''a'', ''b'']] \<and>
   [''a'', ''b''] = current_data_of (user_data_of entered) @
      text_messages (map fst (dialogue (Some Worksheet) entered a_b_finish_c))"
proof -
  have tr: "map fst (dialogue (Some Worksheet) entered a_b_finish_c) =
     [Text_message ''a'', Callback_query ''add_more_data'', Text_message ''b'', finish]"
    by (simp add: entered_def a_b_finish_c_def process_update_def
        data_collection_conv_handler_def data_button_def get_data_def next_state_def
        finish_def has_current_data_def current_data_of_def no_user_data_def world_ok_def Let_def)
  have calls: "append_calls (concat (map snd (dialogue (Some Worksheet) entered a_b_finish_c))) =
     [[''a'', ''b'']]"
    by (simp add: entered_def a_b_finish_c_def process_update_def
        data_collection_conv_handler_def data_button_def get_data_def next_state_def
        finish_def has_current_data_def current_data_of_def no_user_data_def world_ok_def Let_def)
  have s: "data_conv entered = Some GET_DATA" by (simp add: entered_def)
  from one_row_per_dialogue [OF s, of "Some Worksheet" a_b_finish_c] show ?thesis
    unfolding calls tr by (simp add: s)
qed

subsection \<open>C3: the reply of a search with one result\<close>

text \<open>
  Claim C3 as stated fails. For the single result with title "A", URL "u" and no snippet,
  \<^verbatim>\<open>perform_search\<close> sends no reply whose text is the three lines alone: the reply
  text starts with the heading \<^verbatim>\<open>Search Results:\<close> and a blank line.
\<close>

theorem search_reply_counterexample:
  "Reply_text ''Title: A\<newline>URL: u\<newline>Snippet: N/A\<newline>\<newline>'' None
     \<notin> set (fst (snd (perform_search world_found_A ''q'' no_user_data)))"
  by (simp add: perform_search_def world_found_A_def result_A_def or_NA_def)

text \<open>
  Claim C3, amended. When the search returns a first result set that is not empty,
  \<^verbatim>\<open>perform_search\<close> replies with the acknowledgement and then with the heading
  \<^verbatim>\<open>Search Results:\<close>, a blank line, and the lines of each result in input order,
  "N/A" standing for a missing field and a blank line after each result; it returns
  \<^verbatim>\<open>END\<close>. For the single result with title "A", URL "u" and no snippet this text
  is \<^verbatim>\<open>Search Results:\n\nTitle: A\nURL: u\nSnippet: N/A\n\n\<close>.
\<close>

theorem search_reply_has_header:
  assumes "google_search w [search_query] = Inr (found # others)"
    and "results found \<noteq> []"
  shows "perform_search w search_query user_data =
           (user_data,
            [Reply_text (''Searching for '' @ [CHR 0x27] @ search_query @ [CHR 0x27] @ ''...'') None,
             Reply_text (''Search Results:\<newline>\<newline>'' @ concat (map result_lines (results found)))
               None],
            Some END) \<and>
         (results found = [\<lparr>source_title = Some ''A'', url = Some ''u'', snippet = None\<rparr>] \<longrightarrow>
            ''Search Results:\<newline>\<newline>'' @ concat (map result_lines (results found)) =
            ''Search Results:\<newline>\<newline>Title: A\<newline>URL: u\<newline>Snippet: N/A\<newline>\<newline>'')"
  using assms
  by (simp add: perform_search_def add_results_concat) (simp add: result_lines_def or_NA_def)

theorem search_reply_has_header_witness:
  "google_search world_found_A [''q''] = Inr (\<lparr>results = [result_A]\<rparr> # []) \<and>
   results \<lparr>results = [result_A]\<rparr> \<noteq> [] \<and>
   result_A = \<lparr>source_title = Some ''A'', url = Some ''u'', snippet = None\<rparr> \<and>
   perform_search world_found_A ''q'' no_user_data =
     (no_user_data,
      [Reply_text (''Searching for '' @ [CHR 0x27] @ ''q'' @ [CHR 0x27] @ ''...'') None,
       Reply_text
         ''Search Results:\<newline>\<newline>Title: A\<newline>URL: u\<newline>Snippet: N/A\<newline>\<newline>''
         None],
      Some END)"
  using search_reply_has_header
      [of world_found_A "''q''" "\<lparr>results = [result_A]\<rparr>" "[]" no_user_data]
  by (simp add: world_found_A_def result_A_def)

subsection \<open>C4: finish when the worksheet is not connected\<close>

text \<open>
  Claim C4 as stated fails. With the connection failed at startup, a finish action in a
  session without entries is answered with "No data collected yet.", not with the
  message that the sheet could not be reached: the entries are tested before the
  worksheet.
\<close>

theorem finish_without_worksheet_counterexample:
  "fst (connect (Some (Exception ''no credentials''))) = None \<and>
   data_button None world_ok ''finish_submission'' no_user_data =
     (no_user_data, [Answer, Edit_message_text ''No data collected yet.''], Some END) \<and>
   Edit_message_text ''Sorry, could not connect to Google Sheets. Data not saved.''
     \<notin> set (fst (snd (data_button None world_ok ''finish_submission'' no_user_data)))"
  by (simp add: connect_def data_button_def has_current_data_def no_user_data_def)

text \<open>
  Claim C4, amended. If the connection failed at startup, so that the worksheet is
  \<^verbatim>\<open>None\<close>, then for every dictionary a finish action with entries stored removes
  them and replies that the sheet could not be reached, a finish action without entries
  replies "No data collected yet.", both end the dialogue, and no run of any session
  calls \<^verbatim>\<open>append_row\<close>.
\<close>

theorem finish_without_worksheet:
  assumes "worksheet = fst (connect (Some e))"
  shows "data_button worksheet w ''finish_submission'' user_data =
           (if has_current_data user_data
            then (user_data(''current_data'' := None),
                  [Answer,
                   Edit_message_text ''Sorry, could not connect to Google Sheets. Data not saved.''],
                  Some END)
            else (user_data, [Answer, Edit_message_text ''No data collected yet.''], Some END)) \<and>
         append_calls (snd (run worksheet s evs)) = []"
  using assms by (simp add: connect_def data_button_def run_without_worksheet)

theorem finish_without_worksheet_witness:
  "data_button (fst (connect (Some (Exception ''no credentials'')))) world_ok
       ''finish_submission'' stored_x =
     (stored_x(''current_data'' := None),
      [Answer, Edit_message_text ''Sorry, could not connect to Google Sheets. Data not saved.''],
      Some END) \<and>
   data_button (fst (connect (Some (Exception ''no credentials'')))) world_ok
       ''finish_submission'' no_user_data =
     (no_user_data, [Answer, Edit_message_text ''No data collected yet.''], Some END) \<and>
   append_calls (snd (run (fst (connect (Some (Exception ''no credentials'')))) collecting
       [(world_ok, Text_message ''y''), (world_ok, finish)])) = []"
  using finish_without_worksheet
      [of "fst (connect (Some (Exception ''no credentials'')))" "Exception ''no credentials''"
          world_ok stored_x collecting "[(world_ok, Text_message ''y''), (world_ok, finish)]"]
    finish_without_worksheet
      [of "fst (connect (Some (Exception ''no credentials'')))" "Exception ''no credentials''"
          world_ok no_user_data collecting "[]"]
  by (simp add: has_current_data_def stored_x_def no_user_data_def)

subsection \<open>C5: what start does with the entries\<close>

text \<open>
  Claim C5 as stated fails. \<^verbatim>\<open>start\<close> does not write the dictionary: entered with the
  entry "x" stored, it moves to \<^verbatim>\<open>GET_DATA\<close> with "x" still stored.
\<close>

theorem start_keeps_stored_entries_counterexample:
  "current_data_of (fst (start world_ok stored_x)) = [''x''] \<and>
   snd (snd (start world_ok stored_x)) = Some GET_DATA"
  by (simp add: start_def current_data_of_def stored_x_def)

text \<open>
  Claim C5, amended. For every user, \<^verbatim>\<open>start\<close> leaves the dictionary as it is and
  returns \<^verbatim>\<open>GET_DATA\<close>, so that \<^verbatim>\<open>/start\<close> in an idle session changes nothing but
  the state of the dialogue; the list of entries is created by \<^verbatim>\<open>get_data\<close>, which
  on a dictionary without the key stores the list of the one message received.
\<close>

theorem start_leaves_user_data:
  "fst (start w user_data) = user_data \<and>
   snd (snd (start w user_data)) = Some GET_DATA \<and>
   (data_conv s = None \<longrightarrow>
      fst (process_update worksheet w (Command ''start'') s) = s\<lparr>data_conv := Some GET_DATA\<rparr>) \<and>
   (user_data ''current_data'' = None \<longrightarrow>
      fst (get_data data_point user_data) = user_data(''current_data'' \<mapsto> [data_point]))"
  by (simp add: process_start_idle) (simp add: start_def get_data_def dom_def)

theorem start_leaves_user_data_witness:
  "fst (start world_ok no_user_data) = no_user_data \<and>
   snd (snd (start world_ok no_user_data)) = Some GET_DATA \<and>
   data_conv new_session = None \<and>
   fst (process_update None world_ok (Command ''start'') new_session) =
     new_session\<lparr>data_conv := Some GET_DATA\<rparr> \<and>
   no_user_data ''current_data'' = None \<and>
   fst (get_data ''a'' no_user_data) = no_user_data(''current_data'' \<mapsto> [''a''])"
  using start_leaves_user_data [of world_ok no_user_data new_session None "''a''"]
  by (simp add: new_session_def no_user_data_def)

subsection \<open>C6: cancel\<close>

text \<open>
  Claim C6 as stated fails for the search dialogue. \<^verbatim>\<open>cancel_search\<close> ends the
  dialogue and does not touch the dictionary: in a session that awaits a search query
  with the entry "x" stored, \<^verbatim>\<open>/cancel\<close> leaves "x" stored, and the data collection
  dialogue that \<^verbatim>\<open>/start\<close> begins next holds "x".
\<close>

theorem cancel_search_keeps_entries_counterexample:
  "search_conv searching_with_stored_x = Some RECEIVING_SEARCH_QUERY \<and>
   process_update None world_ok (Command ''cancel'') searching_with_stored_x =
     (searching_with_stored_x\<lparr>search_conv := None\<rparr>, [Reply_text ''Search cancelled.'' None]) \<and>
   current_data_of (user_data_of (fst (run None searching_with_stored_x
      [(world_ok, Command ''cancel''), (world_ok, Command ''start'')]))) = [''x'']"
  by (simp add: searching_with_stored_x_def process_update_def data_collection_conv_handler_def
      search_conv_handler_def cancel_search_def start_def next_state_def current_data_of_def
      stored_x_def)

text \<open>
  Claim C6, amended. While the data collection dialogue runs, the cancel button and the
  \<^verbatim>\<open>/cancel\<close> command end it and remove the stored entries, whatever they are, and a
  following \<^verbatim>\<open>/start\<close> begins a dialogue with no entries. While only the search
  dialogue runs, \<^verbatim>\<open>/cancel\<close> ends it with the reply "Search cancelled." and leaves
  the dictionary as it is, and a following \<^verbatim>\<open>/search\<close> asks for a query again.
\<close>

theorem cancel_ends_the_dialogue:
  "(data_conv s = Some GET_DATA \<and> (u = Command ''cancel'' \<or> u = cancel_button) \<longrightarrow>
      data_conv (fst (process_update worksheet w u s)) = None \<and>
      user_data_of (fst (process_update worksheet w u s)) ''current_data'' = None \<and>
      data_conv (fst (run worksheet s [(w, u), (w', Command ''start'')])) = Some GET_DATA \<and>
      current_data_of (user_data_of (fst (run worksheet s [(w, u), (w', Command ''start'')]))) = []) \<and>
   (data_conv s = None \<and> search_conv s = Some RECEIVING_SEARCH_QUERY \<longrightarrow>
      process_update worksheet w (Command ''cancel'') s =
        (s\<lparr>search_conv := None\<rparr>, [Reply_text ''Search cancelled.'' None]) \<and>
      search_conv (fst (run worksheet s [(w, Command ''cancel''), (w', Command ''search'')])) =
        Some RECEIVING_SEARCH_QUERY)"
  by (auto simp: process_update_def data_collection_conv_handler_def search_conv_handler_def
      cancel_button_def cancel_data_collection_def data_button_def cancel_search_def start_def
      search_command_def next_state_def current_data_of_def)

theorem cancel_ends_the_dialogue_witness:
  "data_conv collecting = Some GET_DATA \<and>
   user_data_of (fst (process_update None world_ok (Command ''cancel'') collecting)) ''current_data'' = None \<and>
   user_data_of (fst (process_update None world_ok cancel_button collecting)) ''current_data'' = None \<and>
   current_data_of (user_data_of (fst (run None collecting
      [(world_ok, cancel_button), (world_ok, Command ''start'')]))) = [] \<and>
   data_conv searching_with_stored_x = None \<and>
   search_conv searching_with_stored_x = Some RECEIVING_SEARCH_QUERY \<and>
   process_update None world_ok (Command ''cancel'') searching_with_stored_x =
     (searching_with_stored_x\<lparr>search_conv := None\<rparr>, [Reply_text ''Search cancelled.'' None])"
  using cancel_ends_the_dialogue [of collecting "Command ''cancel''" None world_ok world_ok]
    cancel_ends_the_dialogue [of collecting cancel_button None world_ok world_ok]
    cancel_ends_the_dialogue [of searching_with_stored_x cancel_button None world_ok world_ok]
  by (simp add: collecting_def searching_with_stored_x_def cancel_button_def)

subsection \<open>C7: an external call that raises\<close>

text \<open>
  Claim C7. When \<^verbatim>\<open>google_search\<close> raises \<open>e\<close>, \<^verbatim>\<open>perform_search\<close> returns
  normally: it logs the error with \<open>e\<close>, replies with the generic search error message
  and returns \<^verbatim>\<open>END\<close>. When \<^verbatim>\<open>append_row\<close> raises \<open>e\<close> on the stored entries,
  the finish branch of \<^verbatim>\<open>data_button\<close> returns normally: it shows the generic sheet
  error message, logs the error with \<open>e\<close> and returns \<^verbatim>\<open>END\<close>. Whatever the
  external calls do, both handlers return \<^verbatim>\<open>END\<close>, and the dispatch ends the
  dialogue that handled the update.
\<close>

theorem external_failures_are_caught:
  "(google_search w [search_query] = Inl e \<longrightarrow>
      perform_search w search_query user_data =
        (user_data,
         [Reply_text (''Searching for '' @ [CHR 0x27] @ search_query @ [CHR 0x27] @ ''...'') None,
          Logger_error ''Error during search: '' (Some (Exn e)),
          Reply_text ''Sorry, an error occurred while performing the search.'' None],
         Some END)) \<and>
   (has_current_data user_data \<and> append_row w (current_data_of user_data) = Some e \<longrightarrow>
      data_button (Some sheet) w ''finish_submission'' user_data =
        (user_data(''current_data'' := None),
         [Answer, Append_row (current_data_of user_data),
          Edit_message_text ''Sorry, there was an error adding data to the sheet.'',
          Logger_error ''Error appending data to Google Sheet: '' (Some (Exn e))],
         Some END)) \<and>
   snd (snd (perform_search w search_query user_data)) = Some END \<and>
   snd (snd (data_button worksheet w ''finish_submission'' user_data)) = Some END \<and>
   (data_conv s = None \<and> search_conv s = Some RECEIVING_SEARCH_QUERY \<longrightarrow>
      search_conv (fst (process_update worksheet w (Text_message search_query) s)) = None) \<and>
   (data_conv s = Some GET_DATA \<longrightarrow>
      data_conv (fst (process_update worksheet w finish s)) = None)"
  by (simp add: process_finish_GET_DATA)
    (simp add: perform_search_def data_button_def process_update_def
      data_collection_conv_handler_def search_conv_handler_def next_state_def)

theorem external_failures_are_caught_witness:
  "google_search world_failing [''cats''] = Inl (Exception ''timeout'') \<and>
   perform_search world_failing ''cats'' stored_x =
     (stored_x,
      [Reply_text (''Searching for '' @ [CHR 0x27] @ ''cats'' @ [CHR 0x27] @ ''...'') None,
       Logger_error ''Error during search: '' (Some (Exn (Exception ''timeout''))),
       Reply_text ''Sorry, an error occurred while performing the search.'' None],
      Some END) \<and>
   has_current_data stored_x \<and>
   append_row world_failing (current_data_of stored_x) = Some (Exception ''quota'') \<and>
   data_button (Some Worksheet) world_failing ''finish_submission'' stored_x =
     (stored_x(''current_data'' := None),
      [Answer, Append_row [''x''],
       Edit_message_text ''Sorry, there was an error adding data to the sheet.'',
       Logger_error ''Error appending data to Google Sheet: '' (Some (Exn (Exception ''quota'')))],
      Some END) \<and>
   search_conv (fst (process_update None world_failing (Text_message ''cats'')
      searching_with_stored_x)) = None \<and>
   data_conv (fst (process_update (Some Worksheet) world_failing finish collecting)) = None"
  using external_failures_are_caught
      [of world_failing "''cats''" "Exception ''timeout''" stored_x Worksheet None
          searching_with_stored_x]
    external_failures_are_caught
      [of world_failing "''cats''" "Exception ''quota''" stored_x Worksheet "Some Worksheet"
          collecting]
  by (simp add: world_failing_def has_current_data_def current_data_of_def stored_x_def
      searching_with_stored_x_def collecting_def)

subsection \<open>C8: the token check of main\<close>

text \<open>
  Claim C8. If \<^verbatim>\<open>TELEGRAM_BOT_TOKEN\<close> is unset or equal to the placeholder
  \<^verbatim>\<open>YOUR_BOT_TOKEN\<close>, \<^verbatim>\<open>main\<close> logs one error and returns: it builds nothing and
  starts no polling. With any other token it builds the application with that token,
  adds the two conversation handlers and starts polling.
\<close>

theorem main_checks_token:
  "(environ ''TELEGRAM_BOT_TOKEN'' = None \<or> environ ''TELEGRAM_BOT_TOKEN'' = Some ''YOUR_BOT_TOKEN'' \<longrightarrow>
      main environ =
        [Logger_error
           ''Please replace 'YOUR_BOT_TOKEN' with your actual Telegram bot token or set the TELEGRAM_BOT_TOKEN environment variable.''
           None]) \<and>
   (environ ''TELEGRAM_BOT_TOKEN'' = Some token \<and> token \<noteq> ''YOUR_BOT_TOKEN'' \<longrightarrow>
      main environ =
        [Build_application token, Add_handler ''data_collection_conv_handler'',
         Add_handler ''search_conv_handler'', Run_polling 3])"
  by (auto simp: main_def)

text \<open>No variable, the placeholder, and a token.\<close>

theorem main_checks_token_witness:
  "main Map.empty =
     [Logger_error
        ''Please replace 'YOUR_BOT_TOKEN' with your actual Telegram bot token or set the TELEGRAM_BOT_TOKEN environment variable.''
        None] \<and>
   main [''TELEGRAM_BOT_TOKEN'' \<mapsto> ''YOUR_BOT_TOKEN''] =
     [Logger_error
        ''Please replace 'YOUR_BOT_TOKEN' with your actual Telegram bot token or set the TELEGRAM_BOT_TOKEN environment variable.''
        None] \<and>
   main [''TELEGRAM_BOT_TOKEN'' \<mapsto> ''123:abc''] =
     [Build_application ''123:abc'', Add_handler ''data_collection_conv_handler'',
      Add_handler ''search_conv_handler'', Run_polling 3]"
  using main_checks_token [of Map.empty]
    main_checks_token [of "[''TELEGRAM_BOT_TOKEN'' \<mapsto> ''YOUR_BOT_TOKEN'']"]
    main_checks_token [of "[''TELEGRAM_BOT_TOKEN'' \<mapsto> ''123:abc'']" "''123:abc''"]
  by simp

subsection \<open>C9: finish removes the entries whatever the outcome\<close>

text \<open>
  Claim C9. After a finish action with entries stored, the key \<^verbatim>\<open>current_data\<close> is
  gone from the dictionary and the handler has returned \<^verbatim>\<open>END\<close>, for every
  worksheet (connected or not) and every world (the append returns or raises).
\<close>

theorem finish_removes_current_data:
  assumes "has_current_data user_data"
  shows "fst (data_button worksheet w ''finish_submission'' user_data) ''current_data'' = None \<and>
         snd (snd (data_button worksheet w ''finish_submission'' user_data)) = Some END"
  using assms by (simp add: data_button_def)

text \<open>The append returns, the append raises, the worksheet is not connected.\<close>

theorem finish_removes_current_data_witness:
  "has_current_data stored_x \<and>
   fst (data_button (Some Worksheet) world_ok ''finish_submission'' stored_x) ''current_data'' = None \<and>
   fst (data_button (Some Worksheet) world_failing ''finish_submission'' stored_x) ''current_data'' = None \<and>
   fst (data_button None world_ok ''finish_submission'' stored_x) ''current_data'' = None"
  using finish_removes_current_data [of stored_x "Some Worksheet" world_ok]
    finish_removes_current_data [of stored_x "Some Worksheet" world_failing]
    finish_removes_current_data [of stored_x None world_ok]
  by (simp add: has_current_data_def stored_x_def)

subsection \<open>C10: a button with other callback data\<close>

text \<open>
  Claim C10. For callback data that is none of \<^verbatim>\<open>submit_data\<close>,
  \<^verbatim>\<open>add_more_data\<close>, \<^verbatim>\<open>finish_submission\<close> and \<^verbatim>\<open>cancel_submission\<close>,
  \<^verbatim>\<open>data_button\<close> answers the callback and does nothing else: the dictionary is
  unchanged and the value returned is \<^verbatim>\<open>None\<close>; a session in \<^verbatim>\<open>GET_DATA\<close> is
  left as it was.
\<close>

theorem unknown_button_changes_nothing:
  assumes "query_data \<notin> {''submit_data'', ''add_more_data'', ''finish_submission'', ''cancel_submission''}"
  shows "data_button worksheet w query_data user_data = (user_data, [Answer], None) \<and>
         (data_conv s = Some GET_DATA \<longrightarrow>
            process_update worksheet w (Callback_query query_data) s = (s, [Answer]))"
  using assms
  by (simp add: data_button_def process_update_def data_collection_conv_handler_def next_state_def)

theorem unknown_button_changes_nothing_witness:
  "''like'' \<notin> {''submit_data'', ''add_more_data'', ''finish_submission'', ''cancel_submission''} \<and>
   data_button None world_ok ''like'' stored_x = (stored_x, [Answer], None) \<and>
   data_conv collecting = Some GET_DATA \<and>
   process_update None world_ok (Callback_query ''like'') collecting = (collecting, [Answer])"
  using unknown_button_changes_nothing [of "''like''" None world_ok stored_x collecting]
  by (simp add: collecting_def)

end
